theory Spec2Isabelle
  imports Main "HOL-Library.Sublist"
begin

section \<open>Data model of the pytest-lisa plugin\<close>

text \<open>
  The development embeds \<^verbatim>\<open>src/pytest-lisa/lisa.py\<close>: the validation of the
  \<^verbatim>\<open>lisa\<close> marker, the playbook-driven selection in
  \<^verbatim>\<open>pytest_collection_modifyitems\<close> and the scope splitting of
  \<^verbatim>\<open>LISAScheduling._split_scope\<close>.

  Python strings are modelled as \<^typ>\<open>string\<close>, that is as lists of 8-bit characters:
  the model covers ASCII text, on which \<^verbatim>\<open>str.casefold\<close> lowers the letters
  \<^verbatim>\<open>A-Z\<close> and the regular expression class \<^verbatim>\<open>\w\<close> is letters, digits
  and the underscore.
\<close>

subsection \<open>Python values, markers and items\<close>

text \<open>
  The keyword arguments of a marker are arbitrary Python values. The model has the ones the
  schema tells apart: \<^verbatim>\<open>None\<close>, booleans, integers, strings and lists.
\<close>

datatype pyval = PNone | PBool bool | PInt int | PStr string | PList "pyval list"

text \<open>
  \<^verbatim>\<open>Mark\<close>: positional arguments and the keyword dictionary, in insertion order
  (keys are unique in a Python dictionary).
\<close>

record mark =
  args :: "pyval list"
  kwargs :: "(string \<times> pyval) list"

text \<open>
  The keyword dictionary of a marker after \<^verbatim>\<open>lisa_schema.validate\<close> and
  \<^verbatim>\<open>kwargs.update\<close>: the four required keys are present with the types of the
  schema and the two optional lists have their defaults filled in. The selection reads only
  these keys.
\<close>

record lisa_kwargs =
  platform :: string
  category :: string
  area :: string
  priority :: int
  features :: "string list"
  tags :: "string list"

text \<open>
  A collected \<^verbatim>\<open>Item\<close>: its \<^verbatim>\<open>nodeid\<close>, its \<^verbatim>\<open>name\<close>, the
  \<^verbatim>\<open>__name__\<close> of its module and the result of
  \<^verbatim>\<open>get_closest_marker("lisa")\<close>. The type parameter is the marker: a raw
  \<^typ>\<open>mark\<close> before validation, a \<^typ>\<open>lisa_kwargs\<close> after it. Python compares
  items by identity; here two items are the same when all their fields are.
\<close>

record 'm item =
  nodeid :: string
  name :: string
  module :: string
  marker :: "'m option"

text \<open>
  One record of the playbook's \<^verbatim>\<open>criteria\<close> list, after the defaults of
  \<^verbatim>\<open>criteria_schema\<close> (lines 76-89): \<^verbatim>\<open>None\<close> for the five optional
  scalars, the empty list for \<^verbatim>\<open>tags\<close>, 1 for \<^verbatim>\<open>times\<close> and
  \<^verbatim>\<open>False\<close> for \<^verbatim>\<open>exclude\<close>.
\<close>

record criteria =
  c_name :: "string option"
  c_module :: "string option"
  c_area :: "string option"
  c_category :: "string option"
  c_priority :: "int option"
  c_tags :: "string list"
  c_times :: int
  c_exclude :: bool

subsection \<open>String primitives of Python\<close>

text \<open>\<^verbatim>\<open>a in b\<close> on strings: \<^verbatim>\<open>a\<close> occurs in \<^verbatim>\<open>b\<close> as a contiguous block.\<close>

fun str_in :: "string \<Rightarrow> string \<Rightarrow> bool" where
  "str_in a [] = (a = [])"
| "str_in a (y # ys) = (prefix a (y # ys) \<or> str_in a ys)"

text \<open>\<^verbatim>\<open>str.casefold\<close> on ASCII text.\<close>

definition casefold_char :: "char \<Rightarrow> char" where
  "casefold_char ch =
     (let n = (of_char ch :: nat) in if 65 \<le> n \<and> n \<le> 90 then char_of (n + 32) else ch)"

definition casefold :: "string \<Rightarrow> string" where
  "casefold s = map casefold_char s"

section \<open>The criteria matcher\<close>

text \<open>
  The six elements of the list handed to \<^verbatim>\<open>any\<close> on lines 158-169, each read for
  its truth value. \<^verbatim>\<open>x and y\<close> is \<^verbatim>\<open>x\<close> when \<^verbatim>\<open>x\<close> is falsy:
  \<^verbatim>\<open>None\<close>, the empty string, the integer 0 and the empty list are all falsy.
\<close>

definition name_elem :: "criteria \<Rightarrow> lisa_kwargs item \<Rightarrow> bool" where
  "name_elem c it =
     (case c_name c of None \<Rightarrow> False | Some n \<Rightarrow> n \<noteq> [] \<and> str_in n (name it))"

definition module_elem :: "criteria \<Rightarrow> lisa_kwargs item \<Rightarrow> bool" where
  "module_elem c it =
     (case c_module c of None \<Rightarrow> False | Some m \<Rightarrow> m \<noteq> [] \<and> str_in m (module it))"

definition area_elem :: "criteria \<Rightarrow> lisa_kwargs \<Rightarrow> bool" where
  "area_elem c i =
     (case c_area c of None \<Rightarrow> False | Some a \<Rightarrow> a \<noteq> [] \<and> casefold a = casefold (area i))"

definition category_elem :: "criteria \<Rightarrow> lisa_kwargs \<Rightarrow> bool" where
  "category_elem c i =
     (case c_category c of None \<Rightarrow> False
      | Some g \<Rightarrow> g \<noteq> [] \<and> casefold g = casefold (category i))"

definition priority_elem :: "criteria \<Rightarrow> lisa_kwargs \<Rightarrow> bool" where
  "priority_elem c i =
     (case c_priority c of None \<Rightarrow> False | Some p \<Rightarrow> p \<noteq> 0 \<and> p = priority i)"

definition tags_elem :: "criteria \<Rightarrow> lisa_kwargs \<Rightarrow> bool" where
  "tags_elem c i = (c_tags c \<noteq> [] \<and> set (c_tags c) \<subseteq> set (tags i))"

text \<open>The \<^verbatim>\<open>any([...])\<close> of lines 158-169, for an item whose marker keywords are \<open>i\<close>.\<close>

definition matches :: "criteria \<Rightarrow> lisa_kwargs item \<Rightarrow> lisa_kwargs \<Rightarrow> bool" where
  "matches c it i =
     (\<exists>b \<in> set [name_elem c it, module_elem c it, area_elem c i, category_elem c i,
                 priority_elem c i, tags_elem c i]. b)"

text \<open>
  Lines 152-169: an item without the marker is skipped (\<^verbatim>\<open>continue\<close>), one with
  the marker is tested against the record.
\<close>

definition item_matches :: "criteria \<Rightarrow> lisa_kwargs item \<Rightarrow> bool" where
  "item_matches c it = (case marker it of None \<Rightarrow> False | Some i \<Rightarrow> matches c it i)"

section \<open>The selection engine\<close>

text \<open>
  The state of the selection: the lists \<^verbatim>\<open>included\<close> and \<^verbatim>\<open>excluded\<close>
  of lines 139-140, which the nested function \<^verbatim>\<open>select\<close> appends to.
\<close>

type_synonym 'a selection = "'a list \<times> 'a list"

text \<open>\<^verbatim>\<open>for _ in range(n): included.append(item)\<close>.\<close>

primrec append_times :: "nat \<Rightarrow> 'a \<Rightarrow> 'a list \<Rightarrow> 'a list" where
  "append_times 0 x xs = xs"
| "append_times (Suc n) x xs = append_times n x (xs @ [x])"

text \<open>
  \<^verbatim>\<open>select\<close> (lines 142-148). \<^verbatim>\<open>range\<close> of a negative number is empty, which
  is the truncation of \<^const>\<open>nat\<close>; the count is taken once, before the loop.
\<close>

definition select :: "'a \<Rightarrow> int \<Rightarrow> bool \<Rightarrow> 'a selection \<Rightarrow> 'a selection" where
  "select it ntimes exclude st =
     (case st of (included, excluded) \<Rightarrow>
        if exclude then (included, excluded @ [it])
        else (append_times (nat (ntimes - int (count_list included it))) it included,
              excluded))"

text \<open>The body of the inner loop (lines 151-170) for one record and one item.\<close>

definition visit :: "criteria \<Rightarrow> lisa_kwargs item \<Rightarrow> lisa_kwargs item selection
    \<Rightarrow> lisa_kwargs item selection" where
  "visit c it st = (if item_matches c it then select it (c_times c) (c_exclude c) st else st)"

text \<open>The inner loop over the items for one record, and the outer loop over the records.\<close>

definition apply_criterion :: "lisa_kwargs item list \<Rightarrow> criteria
    \<Rightarrow> lisa_kwargs item selection \<Rightarrow> lisa_kwargs item selection" where
  "apply_criterion items c st = fold (visit c) items st"

definition run_criteria :: "criteria list \<Rightarrow> lisa_kwargs item list
    \<Rightarrow> lisa_kwargs item selection" where
  "run_criteria cs items = fold (apply_criterion items) cs ([], [])"

text \<open>Lines 171-173: the fallback when nothing was selected for inclusion.\<close>

definition fallback :: "'a list \<Rightarrow> 'a list \<Rightarrow> 'a list" where
  "fallback included items = (if included = [] then items else included)"

text \<open>Lines 138-174: the new content of \<^verbatim>\<open>items\<close>.\<close>

definition select_items :: "criteria list \<Rightarrow> lisa_kwargs item list \<Rightarrow> lisa_kwargs item list" where
  "select_items cs items =
     (case run_criteria cs items of (included, excluded) \<Rightarrow>
        filter (\<lambda>i. i \<notin> set excluded) (fallback included items))"

section \<open>Validation of the marker\<close>

text \<open>
  The exceptions of the validation. \<^verbatim>\<open>lisa_schema.validate\<close> belongs to the
  \<^verbatim>\<open>schema\<close> package: it raises \<^verbatim>\<open>SchemaMissingKeyError\<close> when required
  keys are absent and the base class \<^verbatim>\<open>SchemaError\<close> when the value of a key does
  not validate. The model keeps the missing keys, respectively the offending key, in place of
  the message text.
\<close>

datatype validation_error =
    AssertionError string
  | SchemaMissingKeyError "string list"
  | SchemaError string

text \<open>
  How the hook ends when it does not return: \<^verbatim>\<open>pytest.exit\<close> with the message
  \<^verbatim>\<open>Error validating test '{item.name}' metadata: {e}\<close>, kept as the item's name and
  the exception, or an exception that no handler caught.
\<close>

datatype failure = Exit string validation_error | Raised validation_error

text \<open>The value schemas of \<^verbatim>\<open>lisa_schema\<close> (lines 93-106).\<close>

definition is_str :: "pyval \<Rightarrow> bool" where
  "is_str v = (case v of PStr _ \<Rightarrow> True | _ \<Rightarrow> False)"

definition is_str_list :: "pyval \<Rightarrow> bool" where
  "is_str_list v = (case v of PList vs \<Rightarrow> list_all is_str vs | _ \<Rightarrow> False)"

definition categories :: "string list" where
  "categories = [''Functional'', ''Performance'', ''Stress'', ''Community'', ''Longhaul'']"

definition valid_category :: "pyval \<Rightarrow> bool" where
  "valid_category v = (case v of PStr s \<Rightarrow> s \<in> set categories | _ \<Rightarrow> False)"

text \<open>
  \<^verbatim>\<open>Or(0, 1, 2, 3)\<close> compares with \<^verbatim>\<open>==\<close>, under which \<^verbatim>\<open>False\<close> is 0
  and \<^verbatim>\<open>True\<close> is 1.
\<close>

definition int_of_pyval :: "pyval \<Rightarrow> int option" where
  "int_of_pyval v = (case v of PInt n \<Rightarrow> Some n | PBool b \<Rightarrow> Some (if b then 1 else 0)
                     | _ \<Rightarrow> None)"

definition valid_priority :: "pyval \<Rightarrow> bool" where
  "valid_priority v = (case int_of_pyval v of Some n \<Rightarrow> n \<in> set [0, 1, 2, 3] | None \<Rightarrow> False)"

text \<open>
  The schema of the value stored under a key; any other key falls under
  \<^verbatim>\<open>Optional(object): object\<close>, which accepts everything.
\<close>

definition value_ok :: "string \<Rightarrow> pyval \<Rightarrow> bool" where
  "value_ok k v =
     (if k = ''platform'' then is_str v
      else if k = ''category'' then valid_category v
      else if k = ''area'' then is_str v
      else if k = ''priority'' then valid_priority v
      else if k = ''features'' then is_str_list v
      else if k = ''tags'' then is_str_list v
      else True)"

definition required_keys :: "string list" where
  "required_keys = [''area'', ''category'', ''platform'', ''priority'']"

definition get_str :: "(string \<times> pyval) list \<Rightarrow> string \<Rightarrow> string" where
  "get_str kw k = (case map_of kw k of Some (PStr s) \<Rightarrow> s | _ \<Rightarrow> [])"

definition get_int :: "(string \<times> pyval) list \<Rightarrow> string \<Rightarrow> int" where
  "get_int kw k =
     (case map_of kw k of None \<Rightarrow> 0
      | Some v \<Rightarrow> (case int_of_pyval v of Some n \<Rightarrow> n | None \<Rightarrow> 0))"

definition get_str_list :: "(string \<times> pyval) list \<Rightarrow> string \<Rightarrow> string list" where
  "get_str_list kw k =
     (case map_of kw k of
        Some (PList vs) \<Rightarrow> map (\<lambda>v. case v of PStr s \<Rightarrow> s | _ \<Rightarrow> []) vs
      | _ \<Rightarrow> [])"

text \<open>
  \<^verbatim>\<open>lisa_schema.validate(mark.kwargs)\<close>: the values are checked while the dictionary
  is walked, so the first value that does not validate raises; the required keys are checked
  afterwards. On success the validated dictionary, with the defaults of the optional keys, is
  what \<^verbatim>\<open>kwargs.update\<close> stores.
\<close>

definition lisa_schema_validate :: "(string \<times> pyval) list \<Rightarrow> validation_error + lisa_kwargs" where
  "lisa_schema_validate kw =
     (case filter (\<lambda>(k, v). \<not> value_ok k v) kw of
        (k, v) # _ \<Rightarrow> Inl (SchemaError k)
      | [] \<Rightarrow>
         (case filter (\<lambda>k. k \<notin> set (map fst kw)) required_keys of
            [] \<Rightarrow> Inr \<lparr>platform = get_str kw ''platform'', category = get_str kw ''category'',
                       area = get_str kw ''area'', priority = get_int kw ''priority'',
                       features = get_str_list kw ''features'', tags = get_str_list kw ''tags''\<rparr>
          | ks \<Rightarrow> Inl (SchemaMissingKeyError ks)))"

text \<open>\<^verbatim>\<open>validate_mark\<close> (lines 109-116).\<close>

definition validate_mark :: "mark option \<Rightarrow> validation_error + lisa_kwargs option" where
  "validate_mark mk =
     (case mk of
        None \<Rightarrow> Inr None
      | Some m \<Rightarrow>
         if args m \<noteq> [] then Inl (AssertionError ''LISA marker cannot have positional arguments!'')
         else (case lisa_schema_validate (kwargs m) of
                 Inl e \<Rightarrow> Inl e
               | Inr k \<Rightarrow> Inr (Some k)))"

text \<open>
  Lines 131-136: the loop that validates every item. The handler catches
  \<^verbatim>\<open>SchemaMissingKeyError\<close> and \<^verbatim>\<open>AssertionError\<close> and turns them into
  \<^verbatim>\<open>pytest.exit\<close>; any other exception leaves the hook as it is.
\<close>

fun validate_items :: "mark item list \<Rightarrow> failure + lisa_kwargs item list" where
  "validate_items [] = Inr []"
| "validate_items (it # its) =
     (case validate_mark (marker it) of
        Inl (SchemaMissingKeyError ks) \<Rightarrow> Inl (Exit (name it) (SchemaMissingKeyError ks))
      | Inl (AssertionError msg) \<Rightarrow> Inl (Exit (name it) (AssertionError msg))
      | Inl (SchemaError k) \<Rightarrow> Inl (Raised (SchemaError k))
      | Inr k \<Rightarrow>
         (case validate_items its of
            Inl f \<Rightarrow> Inl f
          | Inr its' \<Rightarrow>
             Inr (\<lparr>nodeid = nodeid it, name = name it, module = module it, marker = k\<rparr> # its')))"

text \<open>
  \<^verbatim>\<open>pytest_collection_modifyitems\<close> (lines 119-174), with the criteria of the playbook
  as an argument: the validation, then the selection.
\<close>

definition pytest_collection_modifyitems :: "criteria list \<Rightarrow> mark item list
    \<Rightarrow> failure + lisa_kwargs item list" where
  "pytest_collection_modifyitems cs raw =
     (case validate_items raw of Inl f \<Rightarrow> Inl f | Inr items \<Rightarrow> Inr (select_items cs items))"

section \<open>The scope of a node id\<close>

text \<open>The class \<^verbatim>\<open>\w\<close> on ASCII text: digits, letters and the underscore.\<close>

definition is_word_char :: "char \<Rightarrow> bool" where
  "is_word_char ch =
     (let n = (of_char ch :: nat)
      in (48 \<le> n \<and> n \<le> 57) \<or> (65 \<le> n \<and> n \<le> 90) \<or> n = 95 \<or> (97 \<le> n \<and> n \<le> 122))"

text \<open>
  \<^verbatim>\<open>regex.findall(nodeid)\<close> for \<^verbatim>\<open>\[(\w+)\]\<close> (line 208): the scan tries a
  match at each position from the left. At an opening bracket the greedy \<^verbatim>\<open>\w+\<close>
  takes the longest run of word characters; the match succeeds when the run is not empty and
  a closing bracket follows it (a shorter run is followed by a word character, so backtracking
  finds nothing more). After a match the scan goes on behind it, otherwise at the next
  position.
\<close>

function findall :: "string \<Rightarrow> string list" where
  "findall [] = []"
| "findall (ch # s) =
     (if ch = CHR ''['' then
        (case dropWhile is_word_char s of
           x # r \<Rightarrow> if takeWhile is_word_char s \<noteq> [] \<and> x = CHR '']''
                    then takeWhile is_word_char s # findall r
                    else findall s
         | [] \<Rightarrow> findall s)
      else findall s)"
  by pat_completeness auto
termination
proof (relation "measure length")
  fix ch :: char and s x r
  assume "dropWhile is_word_char s = x # r"
  then have "length (x # r) \<le> length s"
    by (metis length_dropWhile_le)
  then show "(r, ch # s) \<in> measure length" by simp
qed simp_all

text \<open>\<^verbatim>\<open>sep.join(xs)\<close>.\<close>

fun join :: "string \<Rightarrow> string list \<Rightarrow> string" where
  "join sep [] = []"
| "join sep [x] = x"
| "join sep (x # y # ys) = x @ sep @ join sep (y # ys)"

text \<open>
  The fallback \<^verbatim>\<open>super()._split_scope(nodeid)\<close> is, by the docstring of lines 219-221,
  \<^verbatim>\<open>nodeid.rsplit("::", 1)[0]\<close>: the text before the rightmost \<^verbatim>\<open>::\<close>, or the
  whole node id when there is none. \<open>after_sep\<close> finds the leftmost \<^verbatim>\<open>::\<close> and
  returns what follows it; on the reversed text that is the rightmost one.
\<close>

fun after_sep :: "string \<Rightarrow> string option" where
  "after_sep (x # y # zs) =
     (if x = CHR '':'' \<and> y = CHR '':'' then Some zs else after_sep (y # zs))"
| "after_sep _ = None"

definition rsplit_scope :: "string \<Rightarrow> string" where
  "rsplit_scope nid = (case after_sep (rev nid) of None \<Rightarrow> nid | Some r \<Rightarrow> rev r)"

text \<open>
  \<^verbatim>\<open>LISAScheduling._split_scope\<close> (lines 210-238). The log line written when
  \<^verbatim>\<open>verbose\<close> is set does not change the result and is left out.
\<close>

definition split_scope :: "string \<Rightarrow> string" where
  "split_scope nid =
     (if CHR ''['' \<in> set nid then join ''/'' (findall nid) else rsplit_scope nid)"

section \<open>Notions of the specification and example data\<close>

subsection \<open>Selection\<close>

text \<open>
  The \<^verbatim>\<open>times\<close> values of the records that select an item for inclusion: the records
  without \<^verbatim>\<open>exclude\<close> that match it, in declaration order.
\<close>

definition matching_times :: "criteria list \<Rightarrow> lisa_kwargs item \<Rightarrow> int list" where
  "matching_times cs it = map c_times (filter (\<lambda>c. \<not> c_exclude c \<and> item_matches c it) cs)"

text \<open>An item is excluded when some record with \<^verbatim>\<open>exclude\<close> matches it.\<close>

definition excluded_by :: "criteria list \<Rightarrow> lisa_kwargs item \<Rightarrow> bool" where
  "excluded_by cs it = (\<exists>c \<in> set cs. c_exclude c \<and> item_matches c it)"

subsection \<open>The collection and the records of the examples\<close>

text \<open>
  The collection of the first end-to-end scenario of the specification: three tests of one
  module, marked \<^verbatim>\<open>LISA(platform="azure", category="Functional", area=a, priority=p)\<close>,
  before and after validation.
\<close>

definition lisa_mark :: "string \<Rightarrow> int \<Rightarrow> mark" where
  "lisa_mark a p =
     \<lparr>args = [],
      kwargs = [(''platform'', PStr ''azure''), (''category'', PStr ''Functional''),
                (''area'', PStr a), (''priority'', PInt p)]\<rparr>"

definition meta :: "string \<Rightarrow> int \<Rightarrow> lisa_kwargs" where
  "meta a p = \<lparr>platform = ''azure'', category = ''Functional'', area = a, priority = p,
              features = [], tags = []\<rparr>"

definition collected :: "string \<Rightarrow> 'm option \<Rightarrow> 'm item" where
  "collected n m = \<lparr>nodeid = ''suite.py::'' @ n, name = n, module = ''suite'', marker = m\<rparr>"

definition raw_t1 :: "mark item" where
  "raw_t1 = collected ''t1'' (Some (lisa_mark ''net'' 1))"

definition raw_t2 :: "mark item" where
  "raw_t2 = collected ''t2'' (Some (lisa_mark ''net'' 2))"

definition raw_t3 :: "mark item" where
  "raw_t3 = collected ''t3'' (Some (lisa_mark ''disk'' 1))"

definition item_t1 :: "lisa_kwargs item" where
  "item_t1 = collected ''t1'' (Some (meta ''net'' 1))"

definition item_t2 :: "lisa_kwargs item" where
  "item_t2 = collected ''t2'' (Some (meta ''net'' 2))"

definition item_t3 :: "lisa_kwargs item" where
  "item_t3 = collected ''t3'' (Some (meta ''disk'' 1))"

text \<open>A record with every key at its default, and the records of the examples.\<close>

definition no_criteria :: criteria where
  "no_criteria = \<lparr>c_name = None, c_module = None, c_area = None, c_category = None,
                  c_priority = None, c_tags = [], c_times = 1, c_exclude = False\<rparr>"

definition priority_one_twice :: criteria where
  "priority_one_twice = no_criteria\<lparr>c_priority := Some 1, c_times := 2\<rparr>"

definition priority_one_minus_one :: criteria where
  "priority_one_minus_one = no_criteria\<lparr>c_priority := Some 1, c_times := - 1\<rparr>"

definition priority_one_zero_times :: criteria where
  "priority_one_zero_times = no_criteria\<lparr>c_priority := Some 1, c_times := 0\<rparr>"

definition exclude_net :: criteria where
  "exclude_net = no_criteria\<lparr>c_area := Some ''NET'', c_exclude := True\<rparr>"

subsection \<open>The matcher in the words of the specification\<close>

text \<open>
  The matcher in the words of the specification: a record matches when one of its non-empty
  constrained fields is satisfied, by substring for \<^verbatim>\<open>name\<close> and
  \<^verbatim>\<open>module\<close>, by case-insensitive equality for \<^verbatim>\<open>area\<close> and
  \<^verbatim>\<open>category\<close>, by equality for \<^verbatim>\<open>priority\<close> and by inclusion for
  \<^verbatim>\<open>tags\<close>. A string or a list is non-empty when it is set and has an element; a
  priority is a number and counts whenever it is set, 0 included.
\<close>

definition satisfies_a_nonempty_field :: "criteria \<Rightarrow> lisa_kwargs item \<Rightarrow> lisa_kwargs \<Rightarrow> bool" where
  "satisfies_a_nonempty_field c it i =
     ((case c_name c of None \<Rightarrow> False | Some n \<Rightarrow> n \<noteq> [] \<and> str_in n (name it)) \<or>
      (case c_module c of None \<Rightarrow> False | Some m \<Rightarrow> m \<noteq> [] \<and> str_in m (module it)) \<or>
      (case c_area c of None \<Rightarrow> False | Some a \<Rightarrow> a \<noteq> [] \<and> casefold a = casefold (area i)) \<or>
      (case c_category c of None \<Rightarrow> False
       | Some g \<Rightarrow> g \<noteq> [] \<and> casefold g = casefold (category i)) \<or>
      (case c_priority c of None \<Rightarrow> False | Some p \<Rightarrow> p = priority i) \<or>
      (c_tags c \<noteq> [] \<and> set (c_tags c) \<subseteq> set (tags i)))"

definition all_unset :: "criteria \<Rightarrow> bool" where
  "all_unset c =
     (c_name c = None \<and> c_module c = None \<and> c_area c = None \<and> c_category c = None \<and>
      c_priority c = None \<and> c_tags c = [])"

subsection \<open>Bracketed tokens\<close>

text \<open>
  The bracketed tokens of a node id in the words of the specification: the texts enclosed by an
  opening bracket and the next closing bracket, with no bracket in between, from left to right;
  and the tokens made of word characters only.
\<close>

definition not_bracket :: "char \<Rightarrow> bool" where
  "not_bracket ch = (ch \<noteq> CHR ''['' \<and> ch \<noteq> CHR '']'')"

function bracket_tokens :: "string \<Rightarrow> string list" where
  "bracket_tokens [] = []"
| "bracket_tokens (ch # s) =
     (if ch = CHR ''['' then
        (case dropWhile not_bracket s of
           x # r \<Rightarrow> if x = CHR '']'' then takeWhile not_bracket s # bracket_tokens r
                    else bracket_tokens s
         | [] \<Rightarrow> bracket_tokens s)
      else bracket_tokens s)"
  by pat_completeness auto
termination
proof (relation "measure length")
  fix ch :: char and s x r
  assume "dropWhile not_bracket s = x # r"
  then have "length (x # r) \<le> length s"
    by (metis length_dropWhile_le)
  then show "(r, ch # s) \<in> measure length" by simp
qed simp_all

definition is_word_token :: "string \<Rightarrow> bool" where
  "is_word_token t = (t \<noteq> [] \<and> list_all is_word_char t)"

subsection \<open>Further records and items of the examples\<close>

text \<open>
  A record with priority 0 and a test of priority 0; markers with an invalid category, without the required \<^verbatim>\<open>area\<close> and with a
  positional argument; an item without the marker.
\<close>

definition priority_zero :: criteria where
  "priority_zero = no_criteria\<lparr>c_priority := Some 0\<rparr>"

definition item_p0 :: "lisa_kwargs item" where
  "item_p0 = collected ''p0'' (Some (meta ''net'' 0))"

definition raw_bad_category :: "mark item" where
  "raw_bad_category =
     collected ''t_bad''
       (Some \<lparr>args = [],
              kwargs = [(''platform'', PStr ''azure''), (''category'', PStr ''Bogus''),
                        (''area'', PStr ''net''), (''priority'', PInt 1)]\<rparr>)"

definition raw_no_area :: "mark item" where
  "raw_no_area =
     collected ''t_no_area''
       (Some \<lparr>args = [],
              kwargs = [(''platform'', PStr ''azure''), (''category'', PStr ''Stress''),
                        (''priority'', PInt 1)]\<rparr>)"

definition raw_positional :: "mark item" where
  "raw_positional =
     collected ''t_pos'' (Some ((lisa_mark ''net'' 1)\<lparr>args := [PStr ''azure'']\<rparr>))"

definition raw_unmarked :: "mark item" where
  "raw_unmarked = collected ''t_static'' None"

section \<open>Properties of the selection engine\<close>

subsection \<open>One call of \<^verbatim>\<open>select\<close>, one item, one record\<close>

lemma append_times_replicate: "append_times n x xs = xs @ replicate n x"
  by (induction n arbitrary: xs) (simp_all add: replicate_app_Cons_same)

lemma count_list_replicate: "count_list (replicate n x) y = (if x = y then n else 0)"
  by (induction n) auto

lemma select_include:
  "select it t False (inc, exc) = (inc @ replicate (nat (t - int (count_list inc it))) it, exc)"
  by (simp add: select_def append_times_replicate)

lemma select_exclude: "select it t True (inc, exc) = (inc, exc @ [it])"
  by (simp add: select_def)

lemma visit_exclude:
  "c_exclude c \<Longrightarrow> visit c it (inc, exc) = (inc, if item_matches c it then exc @ [it] else exc)"
  by (simp add: visit_def select_exclude)

lemma visit_include:
  "\<not> c_exclude c \<Longrightarrow> visit c it (inc, exc) =
     (if item_matches c it then inc @ replicate (nat (c_times c - int (count_list inc it))) it
      else inc, exc)"
  by (simp add: visit_def select_include)

lemma fold_visit_exclude:
  "c_exclude c \<Longrightarrow> fold (visit c) xs (inc, exc) = (inc, exc @ filter (item_matches c) xs)"
  by (induction xs arbitrary: exc) (simp_all add: visit_exclude)

lemma fold_visit_include_snd:
  "\<not> c_exclude c \<Longrightarrow> snd (fold (visit c) xs (inc, exc)) = exc"
  by (induction xs arbitrary: inc) (simp_all add: visit_include)

lemma fold_visit_include_count:
  "\<not> c_exclude c \<Longrightarrow> count_list (fst (fold (visit c) xs (inc, exc))) j =
     (if j \<in> set xs \<and> item_matches c j then max (count_list inc j) (nat (c_times c))
      else count_list inc j)"
proof (induction xs arbitrary: inc)
  case Nil
  then show ?case by simp
next
  case (Cons x xs)
  show ?case
  proof (cases "item_matches c x")
    case False
    with Cons show ?thesis by (auto simp: visit_include)
  next
    case True
    let ?inc = "inc @ replicate (nat (c_times c - int (count_list inc x))) x"
    have step: "fold (visit c) (x # xs) (inc, exc) = fold (visit c) xs (?inc, exc)"
      using Cons.prems True by (simp add: visit_include)
    have cnt: "count_list ?inc j =
        (if j = x then max (count_list inc j) (nat (c_times c)) else count_list inc j)"
      by (auto simp: count_list_replicate)
    show ?thesis
      unfolding step Cons.IH [OF Cons.prems] cnt using True by auto
  qed
qed

lemma fold_visit_set:
  "set (fst (fold (visit c) xs st)) \<subseteq> set (fst st) \<union> set xs"
proof (induction xs arbitrary: st)
  case Nil
  then show ?case by simp
next
  case (Cons x xs)
  have "set (fst (visit c x st)) \<subseteq> set (fst st) \<union> {x}"
    by (cases st) (auto simp: visit_def select_def append_times_replicate)
  with Cons.IH [of "visit c x st"] show ?case by auto
qed

lemma fold_criteria_set:
  "set (fst (fold (apply_criterion items) cs st)) \<subseteq> set (fst st) \<union> set items"
proof (induction cs arbitrary: st)
  case Nil
  then show ?case by simp
next
  case (Cons c cs)
  have "set (fst (apply_criterion items c st)) \<subseteq> set (fst st) \<union> set items"
    unfolding apply_criterion_def by (rule fold_visit_set)
  with Cons.IH [of "apply_criterion items c st"] show ?case by auto
qed

lemma fold_criteria_excluded:
  "set (snd (fold (apply_criterion items) cs (inc, exc))) =
     set exc \<union> {it \<in> set items. excluded_by cs it}"
proof (induction cs arbitrary: inc exc)
  case Nil
  then show ?case by (simp add: excluded_by_def)
next
  case (Cons c cs)
  show ?case
  proof (cases "c_exclude c")
    case True
    then have "apply_criterion items c (inc, exc) = (inc, exc @ filter (item_matches c) items)"
      by (simp add: apply_criterion_def fold_visit_exclude)
    then show ?thesis using Cons.IH True by (auto simp: excluded_by_def)
  next
    case False
    obtain inc' where "apply_criterion items c (inc, exc) = (inc', exc)"
      using fold_visit_include_snd [OF False, of items inc exc]
      by (cases "fold (visit c) items (inc, exc)") (auto simp: apply_criterion_def)
    then show ?thesis using Cons.IH False by (auto simp: excluded_by_def)
  qed
qed

lemma fold_criteria_count:
  "j \<in> set items \<Longrightarrow>
     int (count_list (fst (fold (apply_criterion items) cs (inc, exc))) j) =
       fold max (matching_times cs j) (int (count_list inc j))"
proof (induction cs arbitrary: inc exc)
  case Nil
  then show ?case by (simp add: matching_times_def)
next
  case (Cons c cs)
  show ?case
  proof (cases "c_exclude c")
    case True
    then have "apply_criterion items c (inc, exc) = (inc, exc @ filter (item_matches c) items)"
      by (simp add: apply_criterion_def fold_visit_exclude)
    then show ?thesis using Cons True by (simp add: matching_times_def)
  next
    case False
    obtain inc' exc' where st: "apply_criterion items c (inc, exc) = (inc', exc')"
      by (cases "apply_criterion items c (inc, exc)")
    have cnt: "count_list inc' j =
        (if item_matches c j then max (count_list inc j) (nat (c_times c)) else count_list inc j)"
      using fold_visit_include_count [OF False, of items inc exc j] st Cons.prems
      by (simp add: apply_criterion_def)
    have "int (count_list (fst (fold (apply_criterion items) (c # cs) (inc, exc))) j) =
        fold max (matching_times cs j) (int (count_list inc' j))"
      using Cons.IH [OF Cons.prems, of inc' exc'] st by simp
    also have "int (count_list inc' j) =
        (if item_matches c j then max (c_times c) (int (count_list inc j))
         else int (count_list inc j))"
      unfolding cnt by auto
    also have "fold max (matching_times cs j)
        (if item_matches c j then max (c_times c) (int (count_list inc j))
         else int (count_list inc j)) =
        fold max (matching_times (c # cs) j) (int (count_list inc j))"
      using False by (simp add: matching_times_def)
    finally show ?thesis .
  qed
qed

lemma run_criteria_excluded:
  "set (snd (run_criteria cs items)) = {it \<in> set items. excluded_by cs it}"
  by (simp add: run_criteria_def fold_criteria_excluded)

lemma run_criteria_included_subset: "set (fst (run_criteria cs items)) \<subseteq> set items"
  using fold_criteria_set [of items cs "([], [])"] by (simp add: run_criteria_def)

lemma select_items_filter:
  "select_items cs items =
     filter (\<lambda>it. \<not> excluded_by cs it) (fallback (fst (run_criteria cs items)) items)"
proof -
  obtain inc exc where rc: "run_criteria cs items = (inc, exc)"
    by (cases "run_criteria cs items")
  have sub: "set (fallback inc items) \<subseteq> set items"
    using run_criteria_included_subset [of cs items] rc by (simp add: fallback_def)
  have exc: "set exc = {it \<in> set items. excluded_by cs it}"
    using run_criteria_excluded [of cs items] rc by simp
  have "filter (\<lambda>i. i \<notin> set exc) (fallback inc items) =
      filter (\<lambda>it. \<not> excluded_by cs it) (fallback inc items)"
    by (rule filter_cong) (use sub exc in auto)
  then show ?thesis by (simp add: select_items_def rc)
qed

lemma fold_visit_mono:
  "count_list (fst st) j \<le> count_list (fst (fold (visit c) xs st)) j"
proof (induction xs arbitrary: st)
  case Nil
  then show ?case by simp
next
  case (Cons x xs)
  have "count_list (fst st) j \<le> count_list (fst (visit c x st)) j"
    by (cases st) (simp add: visit_def select_def append_times_replicate)
  also have "\<dots> \<le> count_list (fst (fold (visit c) xs (visit c x st))) j"
    by (rule Cons.IH)
  finally show ?case by simp
qed

lemma fold_criteria_mono:
  "count_list (fst st) j \<le> count_list (fst (fold (apply_criterion items) cs st)) j"
proof (induction cs arbitrary: st)
  case Nil
  then show ?case by simp
next
  case (Cons c cs)
  have "count_list (fst st) j \<le> count_list (fst (apply_criterion items c st)) j"
    unfolding apply_criterion_def by (rule fold_visit_mono)
  also have "\<dots> \<le> count_list (fst (fold (apply_criterion items) cs (apply_criterion items c st))) j"
    by (rule Cons.IH)
  finally show ?case by simp
qed

lemma fold_visit_nothing:
  "\<forall>it \<in> set xs. item_matches c it \<longrightarrow> \<not> c_exclude c \<and> c_times c \<le> 0 \<Longrightarrow>
     fold (visit c) xs ([], []) = ([], [])"
  by (induction xs) (auto simp: visit_def select_include)

lemma fold_criteria_nothing:
  "\<forall>c \<in> set cs. \<forall>it \<in> set items. item_matches c it \<longrightarrow> \<not> c_exclude c \<and> c_times c \<le> 0 \<Longrightarrow>
     fold (apply_criterion items) cs ([], []) = ([], [])"
  by (induction cs) (simp_all add: apply_criterion_def fold_visit_nothing)

lemma fold_criteria_all_exclude:
  "\<forall>c \<in> set cs. c_exclude c \<Longrightarrow> fst (fold (apply_criterion items) cs (inc, exc)) = inc"
  by (induction cs arbitrary: exc) (simp_all add: apply_criterion_def fold_visit_exclude)

subsection \<open>Repetition: the count of an item is a maximum\<close>

text \<open>
  Claim C3, as stated: for an item of the collection that is matched by non-exclude records
  with times \<open>t1, t2, \<dots>\<close>, the number of its occurrences in \<^verbatim>\<open>included\<close> after all
  records is \<open>max(t1, t2, \<dots>)\<close>. A single matching record with \<^verbatim>\<open>times: -1\<close> refutes
  it: the item occurs 0 times, and the maximum is -1.
\<close>

theorem count_is_max_of_times_counterexample:
  "item_t1 \<in> set [item_t1] \<and>
   matching_times [priority_one_minus_one] item_t1 = [- 1] \<and>
   int (count_list (fst (run_criteria [priority_one_minus_one] [item_t1])) item_t1)
     \<noteq> Max (set (matching_times [priority_one_minus_one] item_t1))"
  by code_simp

text \<open>
  Claim C3, amended: for every item of the collection, the number of its occurrences in
  \<^verbatim>\<open>included\<close> after all records is the maximum of 0 and the times of the non-exclude
  records that match it.
\<close>

theorem included_count_is_max_with_zero:
  "it \<in> set items \<Longrightarrow>
     int (count_list (fst (run_criteria cs items)) it) = Max (set (0 # matching_times cs it))"
proof -
  assume "it \<in> set items"
  then have "int (count_list (fst (run_criteria cs items)) it) = fold max (matching_times cs it) 0"
    by (simp add: run_criteria_def fold_criteria_count)
  then show ?thesis
    unfolding Max.set_eq_fold .
qed

theorem included_count_is_max_with_zero_witness:
  "item_t1 \<in> set [item_t1, item_t2, item_t3] \<and>
   int (count_list (fst (run_criteria [priority_one_twice, priority_one_minus_one]
          [item_t1, item_t2, item_t3])) item_t1)
     = Max (set (0 # matching_times [priority_one_twice, priority_one_minus_one] item_t1)) \<and>
   Max (set (0 # matching_times [priority_one_twice, priority_one_minus_one] item_t1)) = 2"
proof -
  have h: "item_t1 \<in> set [item_t1, item_t2, item_t3]" by simp
  have m: "Max (set (0 # matching_times [priority_one_twice, priority_one_minus_one] item_t1)) = 2"
    by code_simp
  show ?thesis
    using h m included_count_is_max_with_zero [OF h, of "[priority_one_twice, priority_one_minus_one]"]
    by blast
qed

subsection \<open>Exclusion\<close>

text \<open>
  Claim C4: an item that matches at least one record with \<^verbatim>\<open>exclude\<close> is absent from
  the final list, whatever was included, in whatever order the records come and whether or not
  the fallback filled \<^verbatim>\<open>included\<close>; the final list is \<^verbatim>\<open>included\<close> (after the
  fallback) with exactly the excluded items filtered out, so every other occurrence stays, in
  the order of \<^verbatim>\<open>included\<close>.
\<close>

theorem exclusion_always_wins:
  "(excluded_by cs it \<longrightarrow> it \<notin> set (select_items cs items)) \<and>
   select_items cs items =
     filter (\<lambda>i. \<not> excluded_by cs i) (fallback (fst (run_criteria cs items)) items)"
  using select_items_filter [of cs items] by auto

theorem exclusion_always_wins_witness:
  "excluded_by [priority_one_twice, exclude_net] item_t1 \<and>
   fst (run_criteria [priority_one_twice, exclude_net] [item_t1, item_t2, item_t3])
     = [item_t1, item_t1, item_t3, item_t3] \<and>
   item_t1 \<notin> set (select_items [priority_one_twice, exclude_net] [item_t1, item_t2, item_t3]) \<and>
   select_items [priority_one_twice, exclude_net] [item_t1, item_t2, item_t3] = [item_t3, item_t3]"
proof -
  have h: "excluded_by [priority_one_twice, exclude_net] item_t1"
    by code_simp
  have r: "fst (run_criteria [priority_one_twice, exclude_net] [item_t1, item_t2, item_t3])
      = [item_t1, item_t1, item_t3, item_t3]"
    by code_simp
  have f: "filter (\<lambda>i. \<not> excluded_by [priority_one_twice, exclude_net] i)
      (fallback [item_t1, item_t1, item_t3, item_t3] [item_t1, item_t2, item_t3]) = [item_t3, item_t3]"
    by code_simp
  note w = exclusion_always_wins [of "[priority_one_twice, exclude_net]" item_t1
      "[item_t1, item_t2, item_t3]"]
  have n: "item_t1 \<notin> set (select_items [priority_one_twice, exclude_net] [item_t1, item_t2, item_t3])"
    using w h by blast
  have s: "select_items [priority_one_twice, exclude_net] [item_t1, item_t2, item_t3]
      = [item_t3, item_t3]"
    using w [THEN conjunct2] unfolding r f .
  show ?thesis
    using h r n s by blast
qed

subsection \<open>The fallback\<close>

text \<open>
  Claim C5: when \<^verbatim>\<open>included\<close> is empty after all records, it becomes the collection
  itself (every item once, in the original order) and the exclusions still apply. With
  exclude records only, \<^verbatim>\<open>included\<close> is empty and the final list is the items that no
  record matches, in the original order. The empty list of records returns the collection.
  The selection has no failing branch: once the validation has passed, the hook returns.
\<close>

theorem empty_selection_falls_back_to_all_items:
  "(fst (run_criteria cs items) = [] \<longrightarrow>
      select_items cs items = filter (\<lambda>i. i \<notin> set (snd (run_criteria cs items))) items) \<and>
   ((\<forall>c \<in> set cs. c_exclude c) \<longrightarrow>
      fst (run_criteria cs items) = [] \<and>
      select_items cs items = filter (\<lambda>i. \<not> (\<exists>c \<in> set cs. item_matches c i)) items) \<and>
   select_items [] items = items \<and>
   (validate_items raw = Inr items \<longrightarrow>
      pytest_collection_modifyitems cs raw = Inr (select_items cs items))"
proof (intro conjI impI)
  show "select_items cs items = filter (\<lambda>i. i \<notin> set (snd (run_criteria cs items))) items"
    if "fst (run_criteria cs items) = []"
    using that by (cases "run_criteria cs items") (simp add: select_items_def fallback_def)
  show "select_items [] items = items"
    by (simp add: select_items_def run_criteria_def fallback_def)
  show "pytest_collection_modifyitems cs raw = Inr (select_items cs items)"
    if "validate_items raw = Inr items"
    using that by (simp add: pytest_collection_modifyitems_def)
next
  assume all: "\<forall>c \<in> set cs. c_exclude c"
  then show inc: "fst (run_criteria cs items) = []"
    by (simp add: run_criteria_def fold_criteria_all_exclude)
  have "excluded_by cs i \<longleftrightarrow> (\<exists>c \<in> set cs. item_matches c i)" for i
    using all by (auto simp: excluded_by_def)
  then show "select_items cs items = filter (\<lambda>i. \<not> (\<exists>c \<in> set cs. item_matches c i)) items"
    by (simp add: select_items_filter inc fallback_def)
qed

theorem empty_selection_falls_back_to_all_items_witness:
  "fst (run_criteria [exclude_net] [item_t1, item_t2, item_t3]) = [] \<and>
   c_exclude exclude_net \<and>
   validate_items [raw_t1, raw_t2, raw_t3] = Inr [item_t1, item_t2, item_t3] \<and>
   select_items [exclude_net] [item_t1, item_t2, item_t3] = [item_t3] \<and>
   pytest_collection_modifyitems [exclude_net] [raw_t1, raw_t2, raw_t3] = Inr [item_t3]"
proof -
  have e: "c_exclude exclude_net"
    by (simp add: exclude_net_def no_criteria_def)
  then have a: "\<forall>c \<in> set [exclude_net]. c_exclude c" by simp
  have v: "validate_items [raw_t1, raw_t2, raw_t3] = Inr [item_t1, item_t2, item_t3]"
    by code_simp
  have f: "filter (\<lambda>i. \<not> (\<exists>c \<in> set [exclude_net]. item_matches c i)) [item_t1, item_t2, item_t3]
      = [item_t3]"
    by code_simp
  show ?thesis
    using e a v f
      empty_selection_falls_back_to_all_items [of "[exclude_net]" "[item_t1, item_t2, item_t3]"
        "[raw_t1, raw_t2, raw_t3]"]
    by simp
qed

subsection \<open>The first end-to-end scenario\<close>

text \<open>
  Claim C6: for the collection \<open>[t1, t2, t3]\<close> with priorities 1, 2, 1 and the single record
  \<^verbatim>\<open>{priority: 1, times: 2}\<close> the hook returns \<open>[t1, t1, t3, t3]\<close>: that is already
  \<^verbatim>\<open>included\<close> after the record, so the fallback does not fire, and \<open>t2\<close> is not in it.
\<close>

theorem scenario_priority_one_twice:
  "fst (run_criteria [priority_one_twice] [item_t1, item_t2, item_t3])
     = [item_t1, item_t1, item_t3, item_t3] \<and>
   select_items [priority_one_twice] [item_t1, item_t2, item_t3]
     = [item_t1, item_t1, item_t3, item_t3] \<and>
   item_t2 \<notin> set (select_items [priority_one_twice] [item_t1, item_t2, item_t3]) \<and>
   pytest_collection_modifyitems [priority_one_twice] [raw_t1, raw_t2, raw_t3]
     = Inr [item_t1, item_t1, item_t3, item_t3]"
  by code_simp

subsection \<open>Top-up and monotonicity\<close>

text \<open>
  Claim C10: for a non-exclude record, \<^verbatim>\<open>select\<close> appends exactly
  \<open>max(0, times - count)\<close> copies of the item and removes nothing; the number of occurrences
  of any item in \<^verbatim>\<open>included\<close> never decreases, neither over one visit nor over further
  records; a record with \<open>times \<le> 0\<close> appends nothing; and when the only records that match
  anything are non-exclude records with \<open>times \<le> 0\<close>, \<^verbatim>\<open>included\<close> stays empty and the
  hook's result is the collection itself, every item once.
\<close>

theorem select_tops_up_and_never_shrinks:
  "select it t False (inc, exc) =
     (inc @ replicate (nat (max 0 (t - int (count_list inc it)))) it, exc) \<and>
   count_list (fst st) j \<le> count_list (fst (visit c it st)) j \<and>
   count_list (fst (run_criteria cs items)) j \<le> count_list (fst (run_criteria (cs @ cs') items)) j \<and>
   (t \<le> 0 \<longrightarrow> select it t False st = st) \<and>
   ((\<forall>c \<in> set cs. \<forall>it \<in> set items. item_matches c it \<longrightarrow> \<not> c_exclude c \<and> c_times c \<le> 0) \<longrightarrow>
      fst (run_criteria cs items) = [] \<and> select_items cs items = items)"
proof (intro conjI impI)
  show "select it t False (inc, exc) =
      (inc @ replicate (nat (max 0 (t - int (count_list inc it)))) it, exc)"
    by (simp add: select_include)
  show "count_list (fst st) j \<le> count_list (fst (visit c it st)) j"
    using fold_visit_mono [of st j c "[it]"] by simp
  show "count_list (fst (run_criteria cs items)) j
      \<le> count_list (fst (run_criteria (cs @ cs') items)) j"
    unfolding run_criteria_def fold_append comp_apply by (rule fold_criteria_mono)
  show "select it t False st = st" if "t \<le> 0"
    using that by (cases st) (simp add: select_include)
next
  assume h: "\<forall>c \<in> set cs. \<forall>it \<in> set items. item_matches c it \<longrightarrow> \<not> c_exclude c \<and> c_times c \<le> 0"
  then have rc: "run_criteria cs items = ([], [])"
    unfolding run_criteria_def by (rule fold_criteria_nothing)
  then show "fst (run_criteria cs items) = []" by simp
  show "select_items cs items = items"
    by (simp add: select_items_def rc fallback_def)
qed

theorem select_tops_up_and_never_shrinks_witness:
  "c_times priority_one_zero_times \<le> 0 \<and> \<not> c_exclude priority_one_zero_times \<and>
   item_matches priority_one_zero_times item_t1 \<and>
   select item_t1 (c_times priority_one_zero_times) False ([item_t2], []) = ([item_t2], []) \<and>
   fst (run_criteria [priority_one_zero_times] [item_t1, item_t2, item_t3]) = [] \<and>
   select_items [priority_one_zero_times] [item_t1, item_t2, item_t3] = [item_t1, item_t2, item_t3]"
proof -
  have t: "c_times priority_one_zero_times \<le> 0" and e: "\<not> c_exclude priority_one_zero_times"
    by (simp_all add: priority_one_zero_times_def no_criteria_def)
  have m: "item_matches priority_one_zero_times item_t1"
    by code_simp
  have h: "\<forall>c \<in> set [priority_one_zero_times]. \<forall>it \<in> set [item_t1, item_t2, item_t3].
      item_matches c it \<longrightarrow> \<not> c_exclude c \<and> c_times c \<le> 0"
    using t e by simp
  show ?thesis
    using t e m h
      select_tops_up_and_never_shrinks [of item_t1 "c_times priority_one_zero_times" "[]" "[]"
        "([item_t2], [])" item_t1 priority_one_zero_times "[priority_one_zero_times]"
        "[item_t1, item_t2, item_t3]" "[]"]
    by simp
qed

section \<open>Properties of the matcher\<close>

subsection \<open>The priority field\<close>

lemma priority_elem_nonzero:
  "c_priority c = Some p \<Longrightarrow> p \<noteq> 0 \<Longrightarrow> priority_elem c i \<longleftrightarrow> p = priority i"
  by (simp add: priority_elem_def)

text \<open>
  Claim C1 says that a record with its priority set matches through the priority field exactly
  when the priorities are equal, for each of the priorities 0, 1, 2 and 3; the module docstring
  (lines 10-12) gives \<^verbatim>\<open>- priority: 0\<close> as the way to select all tests of priority 0.
  The code does not do so for 0: \<^verbatim>\<open>c["priority"] and \<dots>\<close> is 0, hence falsy, whenever
  the record's priority is 0. The record \<^verbatim>\<open>{priority: 0}\<close> matches no test of priority 0,
  nothing is included, and the fallback runs the whole collection.
\<close>

theorem priority_zero_record_matches_nothing:
  "c_priority priority_zero = Some 0 \<and> marker item_p0 = Some (meta ''net'' 0) \<and>
   priority (meta ''net'' 0) = 0 \<and>
   \<not> priority_elem priority_zero (meta ''net'' 0) \<and>
   \<not> item_matches priority_zero item_p0 \<and>
   fst (run_criteria [priority_zero] [item_p0, item_t1]) = [] \<and>
   select_items [priority_zero] [item_p0, item_t1] = [item_p0, item_t1]"
  by code_simp

subsection \<open>Disjunction over the fields\<close>

text \<open>
  The code against the specification's matcher. The six elements of the \<^verbatim>\<open>any\<close> are
  the six disjuncts of the specification, except that the priority element is also false for
  a record of priority 0; so the two differ only for such a record and an item of priority 0.
\<close>

lemma matches_unfold:
  "matches c it i \<longleftrightarrow>
     name_elem c it \<or> module_elem c it \<or> area_elem c i \<or> category_elem c i \<or>
     priority_elem c i \<or> tags_elem c i"
  by (simp add: matches_def)

lemma nonempty_field_unfold:
  "satisfies_a_nonempty_field c it i \<longleftrightarrow>
     name_elem c it \<or> module_elem c it \<or> area_elem c i \<or> category_elem c i \<or>
     (case c_priority c of None \<Rightarrow> False | Some p \<Rightarrow> p = priority i) \<or> tags_elem c i"
  by (simp add: satisfies_a_nonempty_field_def name_elem_def module_elem_def area_elem_def
      category_elem_def tags_elem_def)

lemma priority_elem_cases:
  "priority_elem c i \<longleftrightarrow>
     (case c_priority c of None \<Rightarrow> False | Some p \<Rightarrow> p = priority i) \<and> c_priority c \<noteq> Some 0"
  by (cases "c_priority c") (auto simp: priority_elem_def)

lemma matches_differs_only_at_priority_zero:
  "matches c it i \<noteq> satisfies_a_nonempty_field c it i \<Longrightarrow>
     c_priority c = Some 0 \<and> priority i = 0 \<and> \<not> matches c it i"
  unfolding matches_unfold nonempty_field_unfold priority_elem_cases
  by (cases "c_priority c") auto

lemma all_unset_matches_nothing: "all_unset c \<Longrightarrow> \<not> matches c it i"
  by (simp add: matches_unfold all_unset_def name_elem_def module_elem_def area_elem_def
      category_elem_def priority_elem_def tags_elem_def)

text \<open>
  Claim C2 says that a record matches an item with metadata exactly when at least one of its
  set (non-empty) constrained fields, priority among them, is satisfied by the item, and that
  a record with every constrained field unset matches nothing. The second part holds on the
  code. The first fails where the satisfied field is a priority of 0: the record
  \<^verbatim>\<open>{priority: 0}\<close> has its priority set, the test of priority 0 satisfies it, and
  the \<^verbatim>\<open>any\<close> of lines 158-169 is false, because \<^verbatim>\<open>c["priority"] and \<dots>\<close> is
  the falsy 0.
\<close>

theorem satisfied_priority_zero_field_does_not_match:
  "c_priority priority_zero = Some 0 \<and> priority (meta ''net'' 0) = 0 \<and>
   satisfies_a_nonempty_field priority_zero item_p0 (meta ''net'' 0) \<and>
   \<not> matches priority_zero item_p0 (meta ''net'' 0) \<and>
   all_unset no_criteria \<and> \<not> matches no_criteria item_p0 (meta ''net'' 0)"
  by code_simp

section \<open>Properties of the validation\<close>

lemma validate_mark_exempt: "validate_mark None = Inr None"
  by (simp add: validate_mark_def)

lemma validate_items_positional:
  "marker it = Some m \<Longrightarrow> args m \<noteq> [] \<Longrightarrow>
     validate_items (it # its) =
       Inl (Exit (name it) (AssertionError ''LISA marker cannot have positional arguments!''))"
  by (simp add: validate_mark_def)

lemma validate_items_missing_key:
  "marker it = Some m \<Longrightarrow> args m = [] \<Longrightarrow>
   lisa_schema_validate (kwargs m) = Inl (SchemaMissingKeyError ks) \<Longrightarrow>
     validate_items (it # its) = Inl (Exit (name it) (SchemaMissingKeyError ks))"
  by (simp add: validate_mark_def)

lemma validate_items_invalid_value:
  "marker it = Some m \<Longrightarrow> args m = [] \<Longrightarrow>
   lisa_schema_validate (kwargs m) = Inl (SchemaError k) \<Longrightarrow>
     validate_items (it # its) = Inl (Raised (SchemaError k))"
  by (simp add: validate_mark_def)

text \<open>
  Claim C7 says that an item without the marker passes the validation, and that present
  metadata which violates the schema (a missing required key, an invalid category or priority,
  positional arguments) aborts the run during collection with a message that names the item
  and the cause. On the code the unmarked item passes, and a missing key and positional
  arguments end in \<^verbatim>\<open>pytest.exit\<close> with the name of the item. An invalid category
  does not: \<^verbatim>\<open>lisa_schema.validate\<close> raises
  \<^verbatim>\<open>SchemaError\<close>, which the handler of line 135 does not catch, so the exception leaves
  the hook without the message that names the item.
\<close>

theorem invalid_category_is_not_reported:
  "validate_mark (marker raw_unmarked) = Inr None \<and>
   pytest_collection_modifyitems [] [raw_unmarked] = Inr [collected ''t_static'' None] \<and>
   pytest_collection_modifyitems [] [raw_t1, raw_no_area, raw_t2]
     = Inl (Exit ''t_no_area'' (SchemaMissingKeyError [''area''])) \<and>
   pytest_collection_modifyitems [] [raw_t1, raw_positional, raw_t2]
     = Inl (Exit ''t_pos'' (AssertionError ''LISA marker cannot have positional arguments!'')) \<and>
   pytest_collection_modifyitems [] [raw_t1, raw_bad_category, raw_t2]
     = Inl (Raised (SchemaError ''category''))"
  by code_simp

section \<open>Properties of the scope\<close>

subsection \<open>The regular expression finds the word tokens\<close>

lemma word_char_not_bracket: "is_word_char ch \<Longrightarrow> not_bracket ch"
  by (auto simp: is_word_char_def not_bracket_def)

lemma findall_skip: "CHR ''['' \<notin> set u \<Longrightarrow> findall (u @ v) = findall v"
  by (induction u) auto

lemma split_at_dropWhile: "dropWhile P s = x # r \<Longrightarrow> s = takeWhile P s @ x # r"
  by (metis takeWhile_dropWhile_id)

lemma takeWhile_run: "\<forall>c \<in> set w. P c \<Longrightarrow> \<not> P x \<Longrightarrow> takeWhile P (w @ x # r) = w"
  by (simp add: takeWhile_append2)

lemma dropWhile_run: "\<forall>c \<in> set w. P c \<Longrightarrow> \<not> P x \<Longrightarrow> dropWhile P (w @ x # r) = x # r"
  by (simp add: dropWhile_append2)

lemma findall_open:
  "findall (CHR ''['' # s) =
     (if takeWhile is_word_char s \<noteq> [] \<and> (\<exists>r. dropWhile is_word_char s = CHR '']'' # r)
      then takeWhile is_word_char s # findall (tl (dropWhile is_word_char s))
      else findall s)"
  by (auto split: list.splits simp del: dropWhile_eq_Nil_conv)

lemma bracket_tokens_open:
  "bracket_tokens (CHR ''['' # s) =
     (if \<exists>r. dropWhile not_bracket s = CHR '']'' # r
      then takeWhile not_bracket s # bracket_tokens (tl (dropWhile not_bracket s))
      else bracket_tokens s)"
  by (auto split: list.splits simp del: dropWhile_eq_Nil_conv)

lemma findall_filter_tokens: "findall s = filter is_word_token (bracket_tokens s)"
proof (induction s rule: length_induct)
  case (1 s)
  show ?case
  proof (cases s)
    case Nil
    then show ?thesis by simp
  next
    case (Cons ch s')
    have ih: "findall u = filter is_word_token (bracket_tokens u)" if "length u \<le> length s'" for u
      using 1 that Cons by simp
    show ?thesis
    proof (cases "ch = CHR ''[''")
      case False
      then show ?thesis using Cons ih [of s'] by simp
    next
      case True
      let ?w = "takeWhile is_word_char s'"
      show ?thesis
      proof (cases "?w \<noteq> [] \<and> (\<exists>r. dropWhile is_word_char s' = CHR '']'' # r)")
        case A: True
        then obtain r where r: "dropWhile is_word_char s' = CHR '']'' # r" by blast
        have s': "s' = ?w @ CHR '']'' # r"
          using r by (rule split_at_dropWhile)
        have allw: "\<forall>c \<in> set ?w. not_bracket c"
          by (meson set_takeWhileD word_char_not_bracket)
        have nb: "\<not> not_bracket (CHR '']'')" by (simp add: not_bracket_def)
        have t: "takeWhile not_bracket s' = ?w"
          using takeWhile_run [OF allw nb, of r] s' by simp
        have d: "dropWhile not_bracket s' = CHR '']'' # r"
          using dropWhile_run [OF allw nb, of r] s' by simp
        have wt: "is_word_token ?w"
          using A by (auto simp: is_word_token_def list_all_iff dest: set_takeWhileD)
        have "length r \<le> length s'"
          using s' by (metis length_append length_Cons le_add2 Suc_leD)
        then have "findall r = filter is_word_token (bracket_tokens r)" by (rule ih)
        then show ?thesis
          unfolding Cons True findall_open bracket_tokens_open using A r t d wt by simp
      next
        case B: False
        then have fa: "findall s = findall s'"
          unfolding Cons True findall_open by auto
        show ?thesis
        proof (cases "\<exists>r. dropWhile not_bracket s' = CHR '']'' # r")
          case False
          then show ?thesis
            unfolding fa unfolding Cons True bracket_tokens_open using ih [of s'] by simp
        next
          case True2: True
          then obtain r where r: "dropWhile not_bracket s' = CHR '']'' # r" by blast
          let ?t = "takeWhile not_bracket s'"
          have s': "s' = ?t @ CHR '']'' # r"
            using r by (rule split_at_dropWhile)
          have nt: "\<not> is_word_token ?t"
          proof
            assume wt: "is_word_token ?t"
            then have allw: "\<forall>c \<in> set ?t. is_word_char c"
              by (simp add: is_word_token_def list_all_iff)
            have nw: "\<not> is_word_char (CHR '']'')" by (simp add: is_word_char_def)
            have "takeWhile is_word_char s' = ?t"
              using takeWhile_run [OF allw nw, of r] s' by simp
            moreover have "dropWhile is_word_char s' = CHR '']'' # r"
              using dropWhile_run [OF allw nw, of r] s' by simp
            ultimately show False using B wt by (simp add: is_word_token_def)
          qed
          have "CHR ''['' \<notin> set (?t @ [CHR '']''])"
            by (auto simp: not_bracket_def dest: set_takeWhileD)
          then have "findall ((?t @ [CHR '']'']) @ r) = findall r"
            by (rule findall_skip)
          then have skip: "findall s' = findall r"
            using s' by simp
          have "length r \<le> length s'"
            using s' by (metis length_append length_Cons le_add2 Suc_leD)
          then have "findall r = filter is_word_token (bracket_tokens r)" by (rule ih)
          then show ?thesis
            unfolding fa skip unfolding Cons True bracket_tokens_open using r nt by simp
        qed
      qed
    qed
  qed
qed

subsection \<open>The fallback splits at the last separator\<close>






subsection \<open>The scope of a node id\<close>




text \<open>
  Claim C9: a node id that contains an opening bracket takes the bracket path; what is
  extracted is exactly the bracketed tokens made of word characters only, so a token with any
  other character is not in the join; and when no bracketed token is a word token the scope is
  the empty string, not the fallback.
\<close>

theorem only_word_tokens_are_extracted:
  "findall nid = filter is_word_token (bracket_tokens nid) \<and>
   (CHR ''['' \<in> set nid \<longrightarrow> split_scope nid = join ''/'' (findall nid)) \<and>
   (\<not> is_word_token t \<longrightarrow> t \<notin> set (findall nid)) \<and>
   (CHR ''['' \<in> set nid \<and> list_all (\<lambda>t. \<not> is_word_token t) (bracket_tokens nid) \<longrightarrow>
      split_scope nid = [])"
proof (intro conjI impI)
  show eq: "findall nid = filter is_word_token (bracket_tokens nid)"
    by (rule findall_filter_tokens)
  show "split_scope nid = join ''/'' (findall nid)" if "CHR ''['' \<in> set nid"
    using that by (simp add: split_scope_def)
  show "t \<notin> set (findall nid)" if "\<not> is_word_token t"
    using that by (simp add: eq)
  show "split_scope nid = []"
    if "CHR ''['' \<in> set nid \<and> list_all (\<lambda>t. \<not> is_word_token t) (bracket_tokens nid)"
  proof -
    have "filter is_word_token (bracket_tokens nid) = []"
      using that by (simp add: list_all_iff filter_empty_conv)
    then show ?thesis
      using that by (simp add: split_scope_def eq)
  qed
qed

theorem only_word_tokens_are_extracted_witness:
  "CHR ''['' \<in> set ''mod::test[a-b]'' \<and>
   bracket_tokens ''mod::test[a-b]'' = [''a-b''] \<and>
   \<not> is_word_token ''a-b'' \<and>
   ''a-b'' \<notin> set (findall ''mod::test[a-b]'') \<and>
   split_scope ''mod::test[a-b]'' = [] \<and>
   rsplit_scope ''mod::test[a-b]'' = ''mod'' \<and>
   bracket_tokens ''mod::test[x][a-b][y_1]'' = [''x'', ''a-b'', ''y_1''] \<and>
   split_scope ''mod::test[x][a-b][y_1]'' = ''x/y_1''"
proof -
  have a: "CHR ''['' \<in> set ''mod::test[a-b]''" by simp
  have b: "bracket_tokens ''mod::test[a-b]'' = [''a-b'']" by code_simp
  have c: "\<not> is_word_token ''a-b''" by code_simp
  have d: "list_all (\<lambda>t. \<not> is_word_token t) (bracket_tokens ''mod::test[a-b]'')"
    unfolding b using c by simp
  have e: "rsplit_scope ''mod::test[a-b]'' = ''mod''" by code_simp
  have f: "bracket_tokens ''mod::test[x][a-b][y_1]'' = [''x'', ''a-b'', ''y_1'']" by code_simp
  have g: "join ''/'' (findall ''mod::test[x][a-b][y_1]'') = ''x/y_1''" by code_simp
  have h: "CHR ''['' \<in> set ''mod::test[x][a-b][y_1]''" by simp
  note w1 = only_word_tokens_are_extracted [of "''mod::test[a-b]''" "''a-b''"]
  note w2 = only_word_tokens_are_extracted [of "''mod::test[x][a-b][y_1]''" "''a-b''"]
  have 1: "''a-b'' \<notin> set (findall ''mod::test[a-b]'')"
    using w1 c by blast
  have 2: "split_scope ''mod::test[a-b]'' = []"
    using w1 a d by blast
  have 3: "split_scope ''mod::test[x][a-b][y_1]'' = ''x/y_1''"
    using w2 h g by metis
  show ?thesis
    using a b c e f 1 2 3 by blast
qed

end
